theory Spec2Isabelle
  imports Complex_Main
begin

section \<open>Block features, the z-score detector and the rule checker of anomaly.py\<close>

text \<open>
  Python floats are modelled as the reals: arithmetic is exact, and there is no
  rounding, infinity or NaN. Python ints that flow into float arithmetic
  (the transaction count) are reals too; \<open>baseline_size\<close> stays an \<open>int\<close>.

  A Python string that is built by an f-string keeps each formatted float as a
  piece of its own (the value and its format specification), since the decimal
  rendering of a float is not part of the model.
\<close>

subsection \<open>Data model\<close>

datatype error = KeyError string | StatisticsError | ZeroDivisionError | TypeError

datatype piece = Lit string | Fmt real string

type_synonym fstring = "piece list"

text \<open>models.py: the dataclasses Transaction and Block.\<close>

record transaction =
  sender :: string
  receiver :: string
  amount :: real

record block =
  index :: int
  timestamp :: real
  transactions :: "transaction list"
  previous_hash :: string
  nonce :: int
  hash :: string

text \<open>The feature dictionary \<open>Dict[str, float]\<close>.\<close>

type_synonym features = "string \<rightharpoonup> real"

text \<open>An entry \<open>{"mean": None, "std": None}\<close> of \<open>self.stats\<close>.\<close>

record stat =
  mean :: "real option"
  std :: "real option"

text \<open>The attributes of an AnomalyDetector object.\<close>

record detector =
  baseline_size :: int
  z_threshold :: real
  num_txs_history :: "real list"
  total_amount_history :: "real list"
  max_amount_history :: "real list"
  time_delta_history :: "real list"
  baseline_ready :: bool
  stats :: "string \<rightharpoonup> stat"

text \<open>
  The decision dictionary of \<open>process_block\<close>. \<open>feature_z_scores\<close> is a dict
  whose items are read in insertion order, so it is an association list.
\<close>

record decision =
  block_index :: int
  is_anomaly :: bool
  feature_z_scores :: "(string \<times> real) list"
  reason :: fstring

record rule_checker =
  max_single_tx_amount :: real
  max_block_total_amount :: real
  min_time_delta :: real

record rule_decision =
  rule_alert :: bool
  violations :: "fstring list"

subsection \<open>Python primitives used by the code\<close>

text \<open>\<open>d[k]\<close> on a dict: KeyError when the key is missing.\<close>

definition getitem :: "(string \<rightharpoonup> 'a) \<Rightarrow> string \<Rightarrow> error + 'a" where
  "getitem d k = (case d k of None \<Rightarrow> Inl (KeyError k) | Some v \<Rightarrow> Inr v)"

text \<open>\<open>d[k] = v\<close> on an insertion-ordered dict: an existing key keeps its place.\<close>

fun dict_setitem :: "('k \<times> 'v) list \<Rightarrow> 'k \<Rightarrow> 'v \<Rightarrow> ('k \<times> 'v) list" where
  "dict_setitem [] k v = [(k, v)]"
| "dict_setitem (p # ps) k v = (if fst p = k then (k, v) # ps else p # dict_setitem ps k v)"

text \<open>\<open>a / b\<close> on floats: ZeroDivisionError when the divisor is zero.\<close>

definition truediv :: "real \<Rightarrow> real \<Rightarrow> error + real" where
  "truediv a b = (if b = 0 then Inl ZeroDivisionError else Inr (a / b))"

text \<open>\<open>sep.join(xs)\<close>.\<close>

fun join :: "string \<Rightarrow> string list \<Rightarrow> string" where
  "join sep [] = []"
| "join sep [x] = x"
| "join sep (x # y # ys) = x @ sep @ join sep (y # ys)"

text \<open>\<open>max(iterable, default=d)\<close>: the first largest item, the default when there is none.\<close>

fun max_default :: "real list \<Rightarrow> real \<Rightarrow> real" where
  "max_default [] d = d"
| "max_default (x # xs) d = foldl (\<lambda>m item. if item > m then item else m) x xs"

text \<open>
  \<open>statistics.mean\<close> and \<open>statistics.stdev\<close> of the standard library:
  the arithmetic mean (StatisticsError on empty data) and the square root of the
  sample variance, the sum of squared deviations from the mean over \<open>n - 1\<close>
  (StatisticsError on fewer than two data points).
\<close>

definition statistics_mean :: "real list \<Rightarrow> error + real" where
  "statistics_mean data =
     (if length data < 1 then Inl StatisticsError
      else Inr (sum_list data / real (length data)))"

definition statistics_stdev :: "real list \<Rightarrow> error + real" where
  "statistics_stdev data =
     (if length data < 2 then Inl StatisticsError
      else (let xbar = sum_list data / real (length data);
                ss = sum_list (map (\<lambda>x. (x - xbar)\<^sup>2) data)
            in Inr (sqrt (ss / real (length data - 1)))))"

subsection \<open>AnomalyDetector\<close>

definition feature_names :: "string list" where
  "feature_names = [''num_txs'', ''total_amount'', ''max_amount'', ''time_delta'']"

text \<open>\<open>__init__\<close>.\<close>

definition AnomalyDetector :: "int \<Rightarrow> real \<Rightarrow> detector" where
  "AnomalyDetector bs zt =
     \<lparr>baseline_size = bs, z_threshold = zt,
      num_txs_history = [], total_amount_history = [],
      max_amount_history = [], time_delta_history = [],
      baseline_ready = False,
      stats = [''num_txs'' \<mapsto> \<lparr>mean = None, std = None\<rparr>,
               ''total_amount'' \<mapsto> \<lparr>mean = None, std = None\<rparr>,
               ''max_amount'' \<mapsto> \<lparr>mean = None, std = None\<rparr>,
               ''time_delta'' \<mapsto> \<lparr>mean = None, std = None\<rparr>]\<rparr>"

definition update_history :: "detector \<Rightarrow> real \<Rightarrow> real \<Rightarrow> real \<Rightarrow> real \<Rightarrow> detector" where
  "update_history d n t m td =
     d\<lparr>num_txs_history := num_txs_history d @ [n],
       total_amount_history := total_amount_history d @ [t],
       max_amount_history := max_amount_history d @ [m],
       time_delta_history := time_delta_history d @ [td]\<rparr>"

text \<open>The local function \<open>mean_std\<close> of \<open>_compute_baseline\<close>.\<close>

definition mean_std :: "real list \<Rightarrow> error + (real \<times> real)" where
  "mean_std lst =
     (case statistics_mean lst of
        Inl e \<Rightarrow> Inl e
      | Inr m \<Rightarrow>
          (if length lst > 1
           then (case statistics_stdev lst of Inl e \<Rightarrow> Inl e | Inr s \<Rightarrow> Inr (m, s))
           else Inr (m, 0)))"

text \<open>
  \<open>self.stats[name]["mean"], self.stats[name]["std"] = m, s\<close>: the entry of
  \<open>name\<close> is looked up (KeyError when absent) and both of its fields are set.
\<close>

definition set_stat :: "detector \<Rightarrow> string \<Rightarrow> real \<Rightarrow> real \<Rightarrow> error + detector" where
  "set_stat d name m s =
     (case getitem (stats d) name of
        Inl e \<Rightarrow> Inl e
      | Inr st \<Rightarrow> Inr (d\<lparr>stats := (stats d)(name \<mapsto> st\<lparr>mean := Some m, std := Some s\<rparr>)\<rparr>))"

text \<open>
  One of the four paragraphs of \<open>_compute_baseline\<close>. The result is the
  exception raised, if any, and the detector as the paragraph leaves it.
\<close>

definition baseline_of :: "detector \<Rightarrow> string \<Rightarrow> real list \<Rightarrow> error option \<times> detector" where
  "baseline_of d name lst =
     (case mean_std lst of
        Inl e \<Rightarrow> (Some e, d)
      | Inr (m, s) \<Rightarrow>
          (case set_stat d name m s of
             Inl e \<Rightarrow> (Some e, d)
           | Inr d' \<Rightarrow> (None, d')))"

definition compute_baseline :: "detector \<Rightarrow> error option \<times> detector" where
  "compute_baseline d =
     (case baseline_of d ''num_txs'' (num_txs_history d) of
        (Some e, d1) \<Rightarrow> (Some e, d1)
      | (None, d1) \<Rightarrow>
     (case baseline_of d1 ''total_amount'' (total_amount_history d1) of
        (Some e, d2) \<Rightarrow> (Some e, d2)
      | (None, d2) \<Rightarrow>
     (case baseline_of d2 ''max_amount'' (max_amount_history d2) of
        (Some e, d3) \<Rightarrow> (Some e, d3)
      | (None, d3) \<Rightarrow>
     (case baseline_of d3 ''time_delta'' (time_delta_history d3) of
        (Some e, d4) \<Rightarrow> (Some e, d4)
      | (None, d4) \<Rightarrow> (None, d4\<lparr>baseline_ready := True\<rparr>)))))"

text \<open>
  \<open>_z_score\<close>. The stored mean and std may still be None: \<open>None == 0\<close> is
  False, and arithmetic on None raises TypeError.
\<close>

definition z_score :: "real \<Rightarrow> real option \<Rightarrow> real option \<Rightarrow> error + real" where
  "z_score v m s =
     (if s = Some 0 then Inr 0
      else (case m of
              None \<Rightarrow> Inl TypeError
            | Some m' \<Rightarrow>
                (case s of None \<Rightarrow> Inl TypeError | Some s' \<Rightarrow> truediv (v - m') s')))"

text \<open>\<open>extract_features\<close>; the method does not read or write \<open>self\<close>.\<close>

definition extract_features :: "block \<Rightarrow> block option \<Rightarrow> features" where
  "extract_features current_block previous_block =
     (let num_txs = real (length (transactions current_block));
          total_amount =
            (if transactions current_block \<noteq> []
             then sum_list (map amount (transactions current_block)) else 0);
          max_amount = max_default (map amount (transactions current_block)) 0;
          time_delta =
            (case previous_block of
               Some p \<Rightarrow> timestamp current_block - timestamp p
             | None \<Rightarrow> 0)
      in [''num_txs'' \<mapsto> num_txs, ''total_amount'' \<mapsto> total_amount,
          ''max_amount'' \<mapsto> max_amount, ''time_delta'' \<mapsto> time_delta])"

text \<open>The body of the loop over the feature names in \<open>process_block\<close>.\<close>

definition feature_z :: "detector \<Rightarrow> features \<Rightarrow> string \<Rightarrow> error + real" where
  "feature_z d fs feat_name =
     (case getitem fs feat_name of
        Inl e \<Rightarrow> Inl e
      | Inr v \<Rightarrow>
          (case getitem (stats d) feat_name of
             Inl e \<Rightarrow> Inl e
           | Inr st \<Rightarrow> z_score v (mean st) (std st)))"

fun z_scores_loop ::
  "detector \<Rightarrow> features \<Rightarrow> string list \<Rightarrow> (string \<times> real) list \<Rightarrow> error + (string \<times> real) list"
where
  "z_scores_loop d fs [] z_scores = Inr z_scores"
| "z_scores_loop d fs (feat_name # rest) z_scores =
     (case feature_z d fs feat_name of
        Inl e \<Rightarrow> Inl e
      | Inr z \<Rightarrow> z_scores_loop d fs rest (dict_setitem z_scores feat_name z))"

text \<open>
  \<open>process_block\<close>: the value returned or the exception raised, and the detector
  after the call. The four features are read before anything is appended, so a
  missing key leaves the detector as it was.
\<close>

definition process_block :: "detector \<Rightarrow> int \<Rightarrow> features \<Rightarrow> (error + decision) \<times> detector" where
  "process_block d bi fs =
     (case getitem fs ''num_txs'' of Inl e \<Rightarrow> (Inl e, d) | Inr n \<Rightarrow>
     (case getitem fs ''total_amount'' of Inl e \<Rightarrow> (Inl e, d) | Inr t \<Rightarrow>
     (case getitem fs ''max_amount'' of Inl e \<Rightarrow> (Inl e, d) | Inr m \<Rightarrow>
     (case getitem fs ''time_delta'' of Inl e \<Rightarrow> (Inl e, d) | Inr td \<Rightarrow>
       (let d1 = update_history d n t m td;
            dec = \<lparr>block_index = bi, is_anomaly = False,
                   feature_z_scores = [], reason = [Lit '''']\<rparr>
        in if int (length (num_txs_history d1)) < baseline_size d1
           then (Inr (dec\<lparr>reason := [Lit ''Not enough data for baseline'']\<rparr>), d1)
           else if \<not> baseline_ready d1
           then (case compute_baseline d1 of
                   (Some e, d2) \<Rightarrow> (Inl e, d2)
                 | (None, d2) \<Rightarrow>
                     (Inr (dec\<lparr>reason := [Lit ''Baseline just computed; no detection yet'']\<rparr>),
                      d2))
           else (case z_scores_loop d1 fs feature_names [] of
                   Inl e \<Rightarrow> (Inl e, d1)
                 | Inr z_scores \<Rightarrow>
                     (let dec1 = dec\<lparr>feature_z_scores := z_scores\<rparr>;
                          anomalies = map fst (filter (\<lambda>(f, z). \<bar>z\<bar> > z_threshold d1) z_scores)
                      in if anomalies \<noteq> []
                         then (Inr (dec1\<lparr>is_anomaly := True,
                                      reason := [Lit ''Anomalous features: '',
                                                 Lit (join '', '' anomalies),
                                                 Lit '' (z-score threshold = '',
                                                 Fmt (z_threshold d1) '''',
                                                 Lit '')'']\<rparr>), d1)
                         else (Inr (dec1\<lparr>reason := [Lit ''Within normal range'']\<rparr>), d1))))))))"

text \<open>
  The calls that the loop of \<open>run_experiment\<close> makes, one per block, each on the
  detector that the call before left behind.
\<close>

fun process_blocks :: "detector \<Rightarrow> (int \<times> features) list \<Rightarrow> detector" where
  "process_blocks d [] = d"
| "process_blocks d ((bi, fs) # rest) = process_blocks (snd (process_block d bi fs)) rest"

subsection \<open>RuleBasedSecurityChecker\<close>

definition check_rules :: "rule_checker \<Rightarrow> features \<Rightarrow> error + rule_decision" where
  "check_rules c fs =
     (case getitem fs ''max_amount'' of Inl e \<Rightarrow> Inl e | Inr ma \<Rightarrow>
       (let v1 = (if ma > max_single_tx_amount c
                  then [[Lit ''Rule1: max_amount '', Fmt ma ''.2f'', Lit '' > '',
                         Fmt (max_single_tx_amount c) ''.2f'']]
                  else [])
        in
     (case getitem fs ''total_amount'' of Inl e \<Rightarrow> Inl e | Inr ta \<Rightarrow>
       (let v2 = v1 @ (if ta > max_block_total_amount c
                  then [[Lit ''Rule2: total_amount '', Fmt ta ''.2f'', Lit '' > '',
                         Fmt (max_block_total_amount c) ''.2f'']]
                  else [])
        in
     (case getitem fs ''time_delta'' of Inl e \<Rightarrow> Inl e | Inr td \<Rightarrow>
       (let v3 = v2 @ (if td \<noteq> 0 \<and> td < min_time_delta c
                  then [[Lit ''Rule3: time_delta '', Fmt td ''.3f'', Lit '' < '',
                         Fmt (min_time_delta c) ''.3f'']]
                  else [])
        in Inr \<lparr>rule_alert = length v3 > 0, violations = v3\<rparr>))))))"

subsection \<open>Notions used in the statements\<close>

text \<open>A feature dictionary with the four keys that \<open>extract_features\<close> writes.\<close>

definition has_features :: "features \<Rightarrow> bool" where
  "has_features fs = (\<forall>k \<in> set feature_names. fs k \<noteq> None)"

definition feature_dict :: "real \<Rightarrow> real \<Rightarrow> real \<Rightarrow> real \<Rightarrow> features" where
  "feature_dict n t m td =
     [''num_txs'' \<mapsto> n, ''total_amount'' \<mapsto> t, ''max_amount'' \<mapsto> m, ''time_delta'' \<mapsto> td]"

text \<open>The rule identifier that a violation text starts with, and those of a decision.\<close>

definition rule_of :: "fstring \<Rightarrow> string" where
  "rule_of v = (case v of Lit s # _ \<Rightarrow> take 5 s | _ \<Rightarrow> [])"

definition rules_of :: "rule_decision \<Rightarrow> string list" where
  "rules_of rd = map rule_of (violations rd)"

text \<open>
  The sample mean and the unbiased sample standard deviation as the specification
  words them, over the positions of the history.
\<close>

definition sample_mean :: "real list \<Rightarrow> real" where
  "sample_mean xs = (\<Sum>i<length xs. xs ! i) / real (length xs)"

definition sample_std :: "real list \<Rightarrow> real" where
  "sample_std xs =
     (if length xs = 1 then 0
      else sqrt ((\<Sum>i<length xs. (xs ! i - sample_mean xs)\<^sup>2) / (real (length xs) - 1)))"

definition frozen_stat :: "real list \<Rightarrow> stat" where
  "frozen_stat xs = \<lparr>mean = Some (sample_mean xs), std = Some (sample_std xs)\<rparr>"

text \<open>The z-score of the specification.\<close>

definition z_value :: "real \<Rightarrow> real \<Rightarrow> real \<Rightarrow> real" where
  "z_value v m s = (if s = 0 then 0 else (v - m) / s)"

text \<open>The values of one feature over a sequence of calls (block index, features).\<close>

definition column :: "string \<Rightarrow> (int \<times> features) list \<Rightarrow> real list" where
  "column k calls = map (\<lambda>(bi, fs). the (fs k)) calls"

text \<open>
  The number of the call that computes the baseline, and the detector that a fresh
  one becomes after a sequence of calls, in closed form.
\<close>

definition baseline_at :: "int \<Rightarrow> nat" where
  "baseline_at bs = (if bs \<le> 1 then 1 else nat bs)"

definition frozen_stats :: "(int \<times> features) list \<Rightarrow> string \<rightharpoonup> stat" where
  "frozen_stats calls =
     (\<lambda>k. if k \<in> set feature_names then Some (frozen_stat (column k calls)) else None)"

definition detector_after :: "int \<Rightarrow> real \<Rightarrow> (int \<times> features) list \<Rightarrow> detector" where
  "detector_after bs zt calls =
     \<lparr>baseline_size = bs, z_threshold = zt,
      num_txs_history = column ''num_txs'' calls,
      total_amount_history = column ''total_amount'' calls,
      max_amount_history = column ''max_amount'' calls,
      time_delta_history = column ''time_delta'' calls,
      baseline_ready = (baseline_at bs \<le> length calls),
      stats = (if baseline_at bs \<le> length calls
               then frozen_stats (take (baseline_at bs) calls)
               else stats (AnomalyDetector bs zt))\<rparr>"

text \<open>The four histories of a detector, together.\<close>

definition histories :: "detector \<Rightarrow> real list \<times> real list \<times> real list \<times> real list" where
  "histories d =
     (num_txs_history d, total_amount_history d, max_amount_history d, time_delta_history d)"

text \<open>The three calls of the end-to-end scenario of the specification.\<close>

definition scenario_calls :: "(int \<times> features) list" where
  "scenario_calls =
     [(1, feature_dict 2 10 5 0), (2, feature_dict 2 10 5 1), (3, feature_dict 2 10 5 1)]"

subsection \<open>Auxiliary facts\<close>

lemma has_features_iff:
  "has_features fs \<longleftrightarrow>
     (\<exists>n t m td. fs ''num_txs'' = Some n \<and> fs ''total_amount'' = Some t \<and>
        fs ''max_amount'' = Some m \<and> fs ''time_delta'' = Some td)"
  by (auto simp: has_features_def feature_names_def)

lemma sum_list_nth: "sum_list (map f xs) = (\<Sum>i<length xs. f (xs ! i))"
proof -
  have "sum_list (map f xs) = (\<Sum>i = 0..<length (map f xs). map f xs ! i)"
    by (rule sum_list_sum_nth)
  also have "\<dots> = (\<Sum>i<length xs. f (xs ! i))"
    by (simp add: atLeast0LessThan)
  finally show ?thesis .
qed

lemma mean_std_eq:
  assumes "xs \<noteq> []"
  shows "mean_std xs = Inr (sample_mean xs, sample_std xs)"
proof -
  have len: "0 < length xs" using assms by simp
  have m: "sum_list xs / real (length xs) = sample_mean xs"
    using sum_list_nth [of "\<lambda>x. x" xs] by (simp add: sample_mean_def)
  have r: "1 < length xs \<Longrightarrow> real (length xs - 1) = real (length xs) - 1"
    by simp
  show ?thesis
  proof (cases "1 < length xs")
    case True
    then show ?thesis
      using len m r
      by (simp add: mean_std_def statistics_mean_def statistics_stdev_def sample_std_def
          Let_def sum_list_nth)
  next
    case False
    with len have "length xs = 1" by linarith
    then show ?thesis
      using m by (simp add: mean_std_def statistics_mean_def sample_std_def)
  qed
qed

lemma stat_update: "st\<lparr>mean := a, std := b\<rparr> = \<lparr>mean = a, std = b\<rparr>"
  by (cases st) simp

lemma baseline_of_eq:
  assumes "xs \<noteq> []" and "stats d k = Some st"
  shows "baseline_of d k xs = (None, d\<lparr>stats := (stats d)(k \<mapsto> frozen_stat xs)\<rparr>)"
  using assms
  by (simp add: baseline_of_def mean_std_eq set_stat_def getitem_def stat_update frozen_stat_def)


lemma compute_baseline_eq:
  assumes "num_txs_history d \<noteq> []" and "total_amount_history d \<noteq> []"
    and "max_amount_history d \<noteq> []" and "time_delta_history d \<noteq> []"
    and "\<forall>k \<in> set feature_names. stats d k \<noteq> None"
  shows "compute_baseline d =
     (None, d\<lparr>stats := (stats d)(''num_txs'' \<mapsto> frozen_stat (num_txs_history d),
                                   ''total_amount'' \<mapsto> frozen_stat (total_amount_history d),
                                   ''max_amount'' \<mapsto> frozen_stat (max_amount_history d),
                                   ''time_delta'' \<mapsto> frozen_stat (time_delta_history d)),
               baseline_ready := True\<rparr>)"
proof -
  from assms(5) obtain s1 s2 s3 s4 where
    s: "stats d ''num_txs'' = Some s1" "stats d ''total_amount'' = Some s2"
       "stats d ''max_amount'' = Some s3" "stats d ''time_delta'' = Some s4"
    by (auto simp: feature_names_def)
  show ?thesis
    using assms(1-4) s by (simp add: compute_baseline_def baseline_of_eq)
qed

lemma process_block_collecting:
  assumes "fs ''num_txs'' = Some n" "fs ''total_amount'' = Some t"
    "fs ''max_amount'' = Some m" "fs ''time_delta'' = Some td"
    and "int (length (num_txs_history d)) + 1 < baseline_size d"
  shows "process_block d bi fs =
    (Inr \<lparr>block_index = bi, is_anomaly = False, feature_z_scores = [],
          reason = [Lit ''Not enough data for baseline'']\<rparr>,
     update_history d n t m td)"
  using assms by (simp add: process_block_def getitem_def update_history_def)

lemma process_block_baseline:
  assumes "fs ''num_txs'' = Some n" "fs ''total_amount'' = Some t"
    "fs ''max_amount'' = Some m" "fs ''time_delta'' = Some td"
    and "\<not> int (length (num_txs_history d)) + 1 < baseline_size d"
    and "\<not> baseline_ready d"
    and "\<forall>k \<in> set feature_names. stats d k \<noteq> None"
  shows "process_block d bi fs =
    (Inr \<lparr>block_index = bi, is_anomaly = False, feature_z_scores = [],
          reason = [Lit ''Baseline just computed; no detection yet'']\<rparr>,
     (update_history d n t m td)
       \<lparr>stats := (stats d)(''num_txs'' \<mapsto> frozen_stat (num_txs_history d @ [n]),
                           ''total_amount'' \<mapsto> frozen_stat (total_amount_history d @ [t]),
                           ''max_amount'' \<mapsto> frozen_stat (max_amount_history d @ [m]),
                           ''time_delta'' \<mapsto> frozen_stat (time_delta_history d @ [td])),
        baseline_ready := True\<rparr>)"
proof -
  let ?d1 = "update_history d n t m td"
  have cb: "compute_baseline ?d1 =
     (None, ?d1\<lparr>stats := (stats ?d1)(''num_txs'' \<mapsto> frozen_stat (num_txs_history ?d1),
                                   ''total_amount'' \<mapsto> frozen_stat (total_amount_history ?d1),
                                   ''max_amount'' \<mapsto> frozen_stat (max_amount_history ?d1),
                                   ''time_delta'' \<mapsto> frozen_stat (time_delta_history ?d1)),
               baseline_ready := True\<rparr>)"
    by (rule compute_baseline_eq) (use assms(7) in \<open>simp_all add: update_history_def\<close>)
  have h: "num_txs_history ?d1 = num_txs_history d @ [n]"
      "total_amount_history ?d1 = total_amount_history d @ [t]"
      "max_amount_history ?d1 = max_amount_history d @ [m]"
      "time_delta_history ?d1 = time_delta_history d @ [td]"
      "stats ?d1 = stats d" "baseline_ready ?d1 = baseline_ready d"
      "baseline_size ?d1 = baseline_size d"
    by (simp_all add: update_history_def)
  show ?thesis
    using assms(1-6) by (simp add: process_block_def getitem_def cb Let_def h)
qed

lemma feature_z_eq:
  assumes "fs k = Some v" and "stats d k = Some \<lparr>mean = Some m, std = Some s\<rparr>"
  shows "feature_z d fs k = Inr (z_value v m s)"
  using assms by (simp add: feature_z_def getitem_def z_score_def truediv_def z_value_def)

lemma z_scores_loop_eq:
  assumes "fs ''num_txs'' = Some n" "fs ''total_amount'' = Some t"
    "fs ''max_amount'' = Some m" "fs ''time_delta'' = Some td"
    and "stats d ''num_txs'' = Some \<lparr>mean = Some m1, std = Some s1\<rparr>"
    and "stats d ''total_amount'' = Some \<lparr>mean = Some m2, std = Some s2\<rparr>"
    and "stats d ''max_amount'' = Some \<lparr>mean = Some m3, std = Some s3\<rparr>"
    and "stats d ''time_delta'' = Some \<lparr>mean = Some m4, std = Some s4\<rparr>"
  shows "z_scores_loop d fs feature_names [] =
     Inr [(''num_txs'', z_value n m1 s1), (''total_amount'', z_value t m2 s2),
          (''max_amount'', z_value m m3 s3), (''time_delta'', z_value td m4 s4)]"
  using assms by (simp add: feature_names_def feature_z_eq)


lemma process_block_scoring:
  assumes f: "fs ''num_txs'' = Some n" "fs ''total_amount'' = Some t"
    "fs ''max_amount'' = Some m" "fs ''time_delta'' = Some td"
    and len: "\<not> int (length (num_txs_history d)) + 1 < baseline_size d"
    and rdy: "baseline_ready d"
    and st: "stats d ''num_txs'' = Some \<lparr>mean = Some m1, std = Some s1\<rparr>"
     "stats d ''total_amount'' = Some \<lparr>mean = Some m2, std = Some s2\<rparr>"
     "stats d ''max_amount'' = Some \<lparr>mean = Some m3, std = Some s3\<rparr>"
     "stats d ''time_delta'' = Some \<lparr>mean = Some m4, std = Some s4\<rparr>"
  shows "\<exists>dec. process_block d bi fs = (Inr dec, update_history d n t m td) \<and>
     block_index dec = bi \<and>
     feature_z_scores dec =
       [(''num_txs'', z_value n m1 s1), (''total_amount'', z_value t m2 s2),
        (''max_amount'', z_value m m3 s3), (''time_delta'', z_value td m4 s4)] \<and>
     (is_anomaly dec \<longleftrightarrow>
        \<bar>z_value n m1 s1\<bar> > z_threshold d \<or> \<bar>z_value t m2 s2\<bar> > z_threshold d \<or>
        \<bar>z_value m m3 s3\<bar> > z_threshold d \<or> \<bar>z_value td m4 s4\<bar> > z_threshold d) \<and>
     (\<not> is_anomaly dec \<longrightarrow> reason dec = [Lit ''Within normal range''])"
proof -
  let ?d1 = "update_history d n t m td"
  have h: "num_txs_history ?d1 = num_txs_history d @ [n]"
      "stats ?d1 = stats d" "baseline_ready ?d1 = baseline_ready d"
      "baseline_size ?d1 = baseline_size d" "z_threshold ?d1 = z_threshold d"
    by (simp_all add: update_history_def)
  have zl: "z_scores_loop ?d1 fs feature_names [] =
     Inr [(''num_txs'', z_value n m1 s1), (''total_amount'', z_value t m2 s2),
          (''max_amount'', z_value m m3 s3), (''time_delta'', z_value td m4 s4)]"
    by (rule z_scores_loop_eq) (simp_all add: f st h)
  show ?thesis
    using f len rdy by (simp add: process_block_def getitem_def Let_def h zl)
qed

lemma process_blocks_snoc:
  "process_blocks d (calls @ [(bi, fs)]) = snd (process_block (process_blocks d calls) bi fs)"
  by (induction d calls rule: process_blocks.induct) simp_all

lemma detector_after_step:
  assumes "has_features fs"
  shows "snd (process_block (detector_after bs zt calls) bi fs) =
         detector_after bs zt (calls @ [(bi, fs)])"
proof -
  from assms obtain n t m td where
    f: "fs ''num_txs'' = Some n" "fs ''total_amount'' = Some t"
       "fs ''max_amount'' = Some m" "fs ''time_delta'' = Some td"
    by (auto simp: has_features_iff)
  let ?d = "detector_after bs zt calls"
  have col: "\<And>k. column k (calls @ [(bi, fs)]) = column k calls @ [the (fs k)]"
    by (simp add: column_def)
  have upd: "update_history ?d n t m td =
      ?d\<lparr>num_txs_history := column ''num_txs'' (calls @ [(bi, fs)]),
         total_amount_history := column ''total_amount'' (calls @ [(bi, fs)]),
         max_amount_history := column ''max_amount'' (calls @ [(bi, fs)]),
         time_delta_history := column ''time_delta'' (calls @ [(bi, fs)])\<rparr>"
    by (simp add: update_history_def detector_after_def col f)
  consider (collect) "int (length calls) + 1 < bs"
    | (base) "\<not> int (length calls) + 1 < bs" "\<not> baseline_at bs \<le> length calls"
    | (score) "baseline_at bs \<le> length calls"
    by blast
  then show ?thesis
  proof cases
    case collect
    then have "process_block ?d bi fs = (Inr \<lparr>block_index = bi, is_anomaly = False, feature_z_scores = [],
          reason = [Lit ''Not enough data for baseline'']\<rparr>, update_history ?d n t m td)"
      by (intro process_block_collecting f) (simp add: detector_after_def column_def)
    moreover from collect have "\<not> baseline_at bs \<le> length calls" "\<not> baseline_at bs \<le> Suc (length calls)"
      by (auto simp: baseline_at_def)
    ultimately show ?thesis
      by (simp add: upd) (simp add: detector_after_def)
  next
    case base
    then have eq: "baseline_at bs = Suc (length calls)"
      by (cases calls) (auto simp: baseline_at_def split: if_splits)
    have "process_block ?d bi fs =
      (Inr \<lparr>block_index = bi, is_anomaly = False, feature_z_scores = [],
          reason = [Lit ''Baseline just computed; no detection yet'']\<rparr>,
       (update_history ?d n t m td)
       \<lparr>stats := (stats ?d)(''num_txs'' \<mapsto> frozen_stat (num_txs_history ?d @ [n]),
                           ''total_amount'' \<mapsto> frozen_stat (total_amount_history ?d @ [t]),
                           ''max_amount'' \<mapsto> frozen_stat (max_amount_history ?d @ [m]),
                           ''time_delta'' \<mapsto> frozen_stat (time_delta_history ?d @ [td])),
        baseline_ready := True\<rparr>)"
      using base
      by (intro process_block_baseline f)
         (simp_all add: detector_after_def column_def AnomalyDetector_def feature_names_def)
    moreover have "(stats ?d)(''num_txs'' \<mapsto> frozen_stat (num_txs_history ?d @ [n]),
                           ''total_amount'' \<mapsto> frozen_stat (total_amount_history ?d @ [t]),
                           ''max_amount'' \<mapsto> frozen_stat (max_amount_history ?d @ [m]),
                           ''time_delta'' \<mapsto> frozen_stat (time_delta_history ?d @ [td]))
         = frozen_stats (calls @ [(bi, fs)])"
      using base(2)
      by (intro ext)
         (simp add: frozen_stats_def detector_after_def col f feature_names_def AnomalyDetector_def)
    ultimately show ?thesis
      by (simp add: upd eq) (simp add: detector_after_def eq)
  next
    case score
    then have nl: "\<not> int (length (num_txs_history ?d)) + 1 < baseline_size ?d"
      by (auto simp: detector_after_def column_def baseline_at_def split: if_splits)
    have rdy: "baseline_ready ?d" using score by (simp add: detector_after_def)
    have st: "\<And>k. k \<in> set feature_names \<Longrightarrow>
        stats ?d k = Some \<lparr>mean = Some (sample_mean (column k (take (baseline_at bs) calls))),
                           std = Some (sample_std (column k (take (baseline_at bs) calls)))\<rparr>"
      using score by (simp add: detector_after_def frozen_stats_def frozen_stat_def)
    obtain dec where "process_block ?d bi fs = (Inr dec, update_history ?d n t m td)"
      using process_block_scoring [OF f nl rdy st st st st, of bi]
      by (auto simp: feature_names_def)
    then show ?thesis
      using score by (simp add: upd) (simp add: detector_after_def)
  qed
qed

lemma process_blocks_eq:
  assumes "\<forall>(bi, fs) \<in> set calls. has_features fs"
  shows "process_blocks (AnomalyDetector bs zt) calls = detector_after bs zt calls"
  using assms
proof (induction calls rule: rev_induct)
  case Nil
  then show ?case
    by (simp add: detector_after_def AnomalyDetector_def column_def baseline_at_def)
next
  case (snoc c calls)
  obtain bi fs where c: "c = (bi, fs)" by (cases c)
  with snoc show ?case
    by (simp add: process_blocks_snoc detector_after_step)
qed

lemma has_features_feature_dict [simp]: "has_features (feature_dict n t m td)"
  by (simp add: has_features_iff feature_dict_def)

lemma process_blocks_append:
  "process_blocks d (xs @ ys) = process_blocks (process_blocks d xs) ys"
  by (induction d xs rule: process_blocks.induct) simp_all

lemma check_rules_eq:
  assumes "fs ''max_amount'' = Some ma" and "fs ''total_amount'' = Some ta"
    and "fs ''time_delta'' = Some td"
  shows "check_rules c fs =
     Inr \<lparr>rule_alert = (ma > max_single_tx_amount c \<or> ta > max_block_total_amount c \<or>
                         (td \<noteq> 0 \<and> td < min_time_delta c)),
          violations =
            (if ma > max_single_tx_amount c
             then [[Lit ''Rule1: max_amount '', Fmt ma ''.2f'', Lit '' > '',
                    Fmt (max_single_tx_amount c) ''.2f'']] else []) @
            (if ta > max_block_total_amount c
             then [[Lit ''Rule2: total_amount '', Fmt ta ''.2f'', Lit '' > '',
                    Fmt (max_block_total_amount c) ''.2f'']] else []) @
            (if td \<noteq> 0 \<and> td < min_time_delta c
             then [[Lit ''Rule3: time_delta '', Fmt td ''.3f'', Lit '' < '',
                    Fmt (min_time_delta c) ''.3f'']] else [])\<rparr>"
  using assms by (simp add: check_rules_def getitem_def)

lemma max_default_Max:
  "max_default (x # xs) d = Max (set (x # xs))"
proof -
  have "(\<lambda>m item::real. if item > m then item else m) = (\<lambda>m item. max item m)"
    by (intro ext) (simp add: max_def)
  then have "foldl (\<lambda>m item. if item > m then item else m) x xs = fold max xs x"
    by (simp add: foldl_conv_fold)
  moreover have "Max (set (x # xs)) = fold max xs x"
    by (rule Max.set_eq_fold)
  ultimately show ?thesis by simp
qed

lemma baseline_of_histories:
  "baseline_of d k xs = (r, d') \<Longrightarrow> histories d' = histories d"
  by (auto simp: baseline_of_def set_stat_def histories_def split: sum.splits prod.splits)

lemma compute_baseline_histories:
  "compute_baseline d = (r, d') \<Longrightarrow> histories d' = histories d"
  unfolding compute_baseline_def
  by (auto split: prod.splits option.splits dest!: baseline_of_histories simp: histories_def)

lemma process_block_histories:
  assumes "fs ''num_txs'' = Some n" "fs ''total_amount'' = Some t"
    "fs ''max_amount'' = Some m" "fs ''time_delta'' = Some td"
  shows "histories (snd (process_block d bi fs)) =
    (num_txs_history d @ [n], total_amount_history d @ [t],
     max_amount_history d @ [m], time_delta_history d @ [td])"
proof -
  have u: "histories (update_history d n t m td) =
    (num_txs_history d @ [n], total_amount_history d @ [t],
     max_amount_history d @ [m], time_delta_history d @ [td])"
    by (simp add: histories_def update_history_def)
  have cb: "histories (snd (compute_baseline (update_history d n t m td))) =
      histories (update_history d n t m td)"
    using compute_baseline_histories [of "update_history d n t m td"]
    by (cases "compute_baseline (update_history d n t m td)") simp
  show ?thesis
    using assms cb u
    by (auto simp: process_block_def getitem_def Let_def split: prod.splits option.splits sum.splits)
qed

lemma process_blocks_histories:
  assumes "\<forall>(bi, fs) \<in> set calls. has_features fs"
  shows "histories (process_blocks d calls) =
    (num_txs_history d @ column ''num_txs'' calls,
     total_amount_history d @ column ''total_amount'' calls,
     max_amount_history d @ column ''max_amount'' calls,
     time_delta_history d @ column ''time_delta'' calls)"
  using assms
proof (induction d calls rule: process_blocks.induct)
  case (1 d)
  then show ?case by (simp add: histories_def column_def)
next
  case (2 d bi fs rest)
  then obtain n t m td where
    f: "fs ''num_txs'' = Some n" "fs ''total_amount'' = Some t"
       "fs ''max_amount'' = Some m" "fs ''time_delta'' = Some td"
    by (auto simp: has_features_iff)
  from 2 have "histories (process_blocks (snd (process_block d bi fs)) rest) =
    (num_txs_history (snd (process_block d bi fs)) @ column ''num_txs'' rest,
     total_amount_history (snd (process_block d bi fs)) @ column ''total_amount'' rest,
     max_amount_history (snd (process_block d bi fs)) @ column ''max_amount'' rest,
     time_delta_history (snd (process_block d bi fs)) @ column ''time_delta'' rest)"
    by simp
  then show ?case
    using process_block_histories [OF f, of d bi] f
    by (simp add: histories_def column_def)
qed

lemma sample_mean_sum_list: "sample_mean xs = sum_list xs / real (length xs)"
  using sum_list_nth [of "\<lambda>x. x" xs] by (simp add: sample_mean_def)

lemma sample_std_sum_list:
  "sample_std xs =
     (if length xs = 1 then 0
      else sqrt (sum_list (map (\<lambda>x. (x - sample_mean xs)\<^sup>2) xs) / (real (length xs) - 1)))"
  by (simp add: sample_std_def sum_list_nth)

lemma sample_constant3: "sample_mean [a, a, a] = a" "sample_std [a, a, a] = 0"
  by (simp_all add: sample_mean_sum_list sample_std_sum_list)

lemma sample_011: "sample_mean [0, 1, 1] = 2 / 3" "sample_std [0, 1, 1] = sqrt (1 / 3)"
proof -
  show m: "sample_mean [0, 1, 1] = 2 / 3"
    by (simp add: sample_mean_sum_list)
  have "sum_list (map (\<lambda>x. (x - 2 / 3)\<^sup>2) [0, 1, 1 :: real]) = 2 / 3"
    by (simp add: power2_eq_square)
  then show "sample_std [0, 1, 1] = sqrt (1 / 3)"
    by (simp add: sample_std_sum_list m del: sum_list.Cons list.map)
qed

lemma scenario_state:
  "process_blocks (AnomalyDetector 3 zt) scenario_calls = detector_after 3 zt scenario_calls"
  by (rule process_blocks_eq) (simp add: scenario_calls_def)

lemma scenario_columns:
  "column ''num_txs'' scenario_calls = [2, 2, 2]"
  "column ''total_amount'' scenario_calls = [10, 10, 10]"
  "column ''max_amount'' scenario_calls = [5, 5, 5]"
  "column ''time_delta'' scenario_calls = [0, 1, 1]"
  by (simp_all add: column_def scenario_calls_def feature_dict_def)

lemma scenario_stats:
  "stats (detector_after 3 zt scenario_calls) ''num_txs'' = Some \<lparr>mean = Some 2, std = Some 0\<rparr>"
  "stats (detector_after 3 zt scenario_calls) ''total_amount'' = Some \<lparr>mean = Some 10, std = Some 0\<rparr>"
  "stats (detector_after 3 zt scenario_calls) ''max_amount'' = Some \<lparr>mean = Some 5, std = Some 0\<rparr>"
  "stats (detector_after 3 zt scenario_calls) ''time_delta'' =
     Some \<lparr>mean = Some (2 / 3), std = Some (sqrt (1 / 3))\<rparr>"
proof -
  have l: "length scenario_calls = 3" by (simp add: scenario_calls_def)
  have "stats (detector_after 3 zt scenario_calls) = frozen_stats scenario_calls"
    by (simp add: detector_after_def baseline_at_def l)
  then show
    "stats (detector_after 3 zt scenario_calls) ''num_txs'' = Some \<lparr>mean = Some 2, std = Some 0\<rparr>"
    "stats (detector_after 3 zt scenario_calls) ''total_amount'' = Some \<lparr>mean = Some 10, std = Some 0\<rparr>"
    "stats (detector_after 3 zt scenario_calls) ''max_amount'' = Some \<lparr>mean = Some 5, std = Some 0\<rparr>"
    "stats (detector_after 3 zt scenario_calls) ''time_delta'' =
       Some \<lparr>mean = Some (2 / 3), std = Some (sqrt (1 / 3))\<rparr>"
    by (simp_all add: frozen_stats_def frozen_stat_def feature_names_def scenario_columns
        sample_constant3 sample_011)
qed

lemma scenario_fourth:
  "\<exists>dec. process_block (detector_after 3 zt scenario_calls) 4 (feature_dict 2 10 5 td) =
      (Inr dec, update_history (detector_after 3 zt scenario_calls) 2 10 5 td) \<and>
     block_index dec = 4 \<and>
     feature_z_scores dec =
       [(''num_txs'', 0), (''total_amount'', 0), (''max_amount'', 0),
        (''time_delta'', (td - 2 / 3) / sqrt (1 / 3))] \<and>
     (is_anomaly dec \<longleftrightarrow> 0 > zt \<or> \<bar>(td - 2 / 3) / sqrt (1 / 3)\<bar> > zt) \<and>
     (\<not> is_anomaly dec \<longrightarrow> reason dec = [Lit ''Within normal range''])"
proof -
  let ?d = "detector_after 3 zt scenario_calls"
  have f: "feature_dict 2 10 5 td ''num_txs'' = Some 2"
    "feature_dict 2 10 5 td ''total_amount'' = Some 10"
    "feature_dict 2 10 5 td ''max_amount'' = Some 5"
    "feature_dict 2 10 5 td ''time_delta'' = Some td"
    by (simp_all add: feature_dict_def)
  have l: "length scenario_calls = 3" by (simp add: scenario_calls_def)
  have nl: "\<not> int (length (num_txs_history ?d)) + 1 < baseline_size ?d"
    by (simp add: detector_after_def scenario_columns)
  have rdy: "baseline_ready ?d"
    by (simp add: detector_after_def baseline_at_def l)
  have zt: "z_threshold ?d = zt" by (simp add: detector_after_def)
  show ?thesis
    using process_block_scoring [OF f nl rdy scenario_stats, of 4]
    by (simp add: z_value_def zt)
qed

lemma scenario_decision:
  assumes "2 / sqrt 3 \<le> zt" and "td = 0 \<or> td = 1"
  shows "fst (process_block (detector_after 3 zt scenario_calls) 4 (feature_dict 2 10 5 td)) =
       Inr \<lparr>block_index = 4, is_anomaly = False,
            feature_z_scores = [(''num_txs'', 0), (''total_amount'', 0), (''max_amount'', 0),
                                (''time_delta'', (td - 2 / 3) / sqrt (1 / 3))],
            reason = [Lit ''Within normal range'']\<rparr>"
proof -
  have s3: "sqrt (1 / 3) = 1 / sqrt 3" by (simp add: real_sqrt_divide)
  have pos: "0 < sqrt (3::real)" by simp
  have "0 < 2 / sqrt (3::real)" by simp
  then have zpos: "0 < zt" using assms(1) by linarith
  have absz: "\<bar>(td - 2 / 3) / sqrt (1 / 3)\<bar> \<le> 2 / sqrt 3"
  proof -
    have "\<bar>(td - 2 / 3) / sqrt (1 / 3)\<bar> = \<bar>td - 2 / 3\<bar> * sqrt 3"
      by (simp add: s3 abs_mult)
    also have "\<dots> \<le> (2 / 3) * sqrt 3"
      using assms(2) by (intro mult_right_mono) auto
    also have "\<dots> = 2 / sqrt 3"
      using pos by (simp add: field_simps)
    finally show ?thesis .
  qed
  obtain dec where dec:
    "process_block (detector_after 3 zt scenario_calls) 4 (feature_dict 2 10 5 td) =
      (Inr dec, update_history (detector_after 3 zt scenario_calls) 2 10 5 td)"
    "block_index dec = 4"
    "feature_z_scores dec =
       [(''num_txs'', 0), (''total_amount'', 0), (''max_amount'', 0),
        (''time_delta'', (td - 2 / 3) / sqrt (1 / 3))]"
    "is_anomaly dec \<longleftrightarrow> 0 > zt \<or> \<bar>(td - 2 / 3) / sqrt (1 / 3)\<bar> > zt"
    "\<not> is_anomaly dec \<longrightarrow> reason dec = [Lit ''Within normal range'']"
    using scenario_fourth [of zt td] by blast
  have na: "\<not> is_anomaly dec"
    using dec(4) zpos absz assms(1) by linarith
  have "dec = \<lparr>block_index = 4, is_anomaly = False,
            feature_z_scores = [(''num_txs'', 0), (''total_amount'', 0), (''max_amount'', 0),
                                (''time_delta'', (td - 2 / 3) / sqrt (1 / 3))],
            reason = [Lit ''Within normal range'']\<rparr>"
    using dec na by (cases dec) simp
  then show ?thesis using dec(1) by simp
qed

lemma two_over_sqrt3: "2 / sqrt 3 \<le> (3::real)"
proof -
  have "1 \<le> sqrt (3::real)" by simp
  then have "2 / sqrt 3 \<le> (2::real)" by (simp add: field_simps)
  then show ?thesis by simp
qed

section \<open>The claims\<close>

text \<open>
  Claim C1. For a detector built with a positive \<open>baseline_size\<close> and fed well-formed
  feature dictionaries: as long as fewer than \<open>baseline_size\<close> calls have been made the
  baseline is not ready and all four means and standard deviations are None; the call
  that makes the history length equal to \<open>baseline_size\<close> returns the decision with
  \<open>is_anomaly = False\<close> and no z-scores, and sets, for each feature, the sample mean and
  the unbiased sample standard deviation (0 for a history of length 1) of the whole
  history, the value just appended included; whatever calls follow, the baseline stays
  ready and the statistics stay what that call made them.
\<close>

theorem baseline_computed_once:
  assumes bs: "0 < bs"
    and calls: "\<forall>(bi, fs) \<in> set calls. has_features fs"
    and fs: "has_features fs"
    and later: "\<forall>(bi, fs) \<in> set later. has_features fs"
  shows
   "(int (length calls) < bs \<longrightarrow>
       \<not> baseline_ready (process_blocks (AnomalyDetector bs zt) calls) \<and>
       (\<forall>k \<in> set feature_names.
          stats (process_blocks (AnomalyDetector bs zt) calls) k =
            Some \<lparr>mean = None, std = None\<rparr>)) \<and>
    (int (length calls) + 1 = bs \<longrightarrow>
       (\<exists>d'. process_block (process_blocks (AnomalyDetector bs zt) calls) bi fs =
              (Inr \<lparr>block_index = bi, is_anomaly = False, feature_z_scores = [],
                    reason = [Lit ''Baseline just computed; no detection yet'']\<rparr>, d') \<and>
             baseline_ready d' \<and>
             num_txs_history d' = column ''num_txs'' (calls @ [(bi, fs)]) \<and>
             total_amount_history d' = column ''total_amount'' (calls @ [(bi, fs)]) \<and>
             max_amount_history d' = column ''max_amount'' (calls @ [(bi, fs)]) \<and>
             time_delta_history d' = column ''time_delta'' (calls @ [(bi, fs)]) \<and>
             (\<forall>k \<in> set feature_names.
                stats d' k = Some \<lparr>mean = Some (sample_mean (column k (calls @ [(bi, fs)]))),
                                   std = Some (sample_std (column k (calls @ [(bi, fs)])))\<rparr>) \<and>
             baseline_ready (process_blocks d' later) \<and>
             stats (process_blocks d' later) = stats d'))"
proof (intro conjI impI)
  assume lt: "int (length calls) < bs"
  then have nb: "\<not> baseline_at bs \<le> length calls"
    by (auto simp: baseline_at_def)
  show "\<not> baseline_ready (process_blocks (AnomalyDetector bs zt) calls)"
    using nb by (simp add: process_blocks_eq [OF calls] detector_after_def)
  show "\<forall>k \<in> set feature_names.
          stats (process_blocks (AnomalyDetector bs zt) calls) k =
            Some \<lparr>mean = None, std = None\<rparr>"
    unfolding process_blocks_eq [OF calls] using nb
    by (simp add: detector_after_def AnomalyDetector_def feature_names_def)
next
  assume eq: "int (length calls) + 1 = bs"
  let ?d = "process_blocks (AnomalyDetector bs zt) calls"
  let ?c1 = "calls @ [(bi, fs)]"
  from fs obtain n t m td where
    f: "fs ''num_txs'' = Some n" "fs ''total_amount'' = Some t"
       "fs ''max_amount'' = Some m" "fs ''time_delta'' = Some td"
    by (auto simp: has_features_iff)
  have at: "baseline_at bs = Suc (length calls)"
    using eq by (auto simp: baseline_at_def)
  have d: "?d = detector_after bs zt calls"
    by (rule process_blocks_eq [OF calls])
  have pb: "process_block ?d bi fs =
      (Inr \<lparr>block_index = bi, is_anomaly = False, feature_z_scores = [],
          reason = [Lit ''Baseline just computed; no detection yet'']\<rparr>,
       (update_history ?d n t m td)
       \<lparr>stats := (stats ?d)(''num_txs'' \<mapsto> frozen_stat (num_txs_history ?d @ [n]),
                           ''total_amount'' \<mapsto> frozen_stat (total_amount_history ?d @ [t]),
                           ''max_amount'' \<mapsto> frozen_stat (max_amount_history ?d @ [m]),
                           ''time_delta'' \<mapsto> frozen_stat (time_delta_history ?d @ [td])),
        baseline_ready := True\<rparr>)" (is "_ = (_, ?d')")
    unfolding d using eq at
    by (intro process_block_baseline f)
       (simp_all add: detector_after_def column_def AnomalyDetector_def feature_names_def)
  have c1: "\<forall>(bi, fs) \<in> set ?c1. has_features fs"
    using calls fs by auto
  have d': "?d' = detector_after bs zt ?c1"
    using detector_after_step [OF fs, of bs zt calls bi] pb d by simp
  have all: "\<forall>(bi, fs) \<in> set (?c1 @ later). has_features fs"
    using c1 later by auto
  have after: "process_blocks ?d' later = detector_after bs zt (?c1 @ later)"
    using process_blocks_eq [OF all, of bs zt] process_blocks_eq [OF c1, of bs zt] d'
    by (simp add: process_blocks_append)
  show "\<exists>d'. process_block ?d bi fs =
              (Inr \<lparr>block_index = bi, is_anomaly = False, feature_z_scores = [],
                    reason = [Lit ''Baseline just computed; no detection yet'']\<rparr>, d') \<and>
             baseline_ready d' \<and>
             num_txs_history d' = column ''num_txs'' ?c1 \<and>
             total_amount_history d' = column ''total_amount'' ?c1 \<and>
             max_amount_history d' = column ''max_amount'' ?c1 \<and>
             time_delta_history d' = column ''time_delta'' ?c1 \<and>
             (\<forall>k \<in> set feature_names.
                stats d' k = Some \<lparr>mean = Some (sample_mean (column k ?c1)),
                                   std = Some (sample_std (column k ?c1))\<rparr>) \<and>
             baseline_ready (process_blocks d' later) \<and>
             stats (process_blocks d' later) = stats d'"
    apply (rule exI [of _ ?d'])
    apply (intro conjI)
            apply (rule pb)
    unfolding after unfolding d'
    by (simp_all add: detector_after_def at frozen_stats_def frozen_stat_def)
qed

theorem baseline_computed_once_witness:
  "\<not> baseline_ready (process_blocks (AnomalyDetector 2 3) [(1, feature_dict 2 10 5 0)]) \<and>
   (\<exists>d'. process_block (process_blocks (AnomalyDetector 2 3) [(1, feature_dict 2 10 5 0)])
            2 (feature_dict 2 10 5 1) =
            (Inr \<lparr>block_index = 2, is_anomaly = False, feature_z_scores = [],
                  reason = [Lit ''Baseline just computed; no detection yet'']\<rparr>, d') \<and>
          baseline_ready d' \<and>
          time_delta_history d' = [0, 1] \<and>
          stats (process_blocks d' [(3, feature_dict 2 10 5 1)]) = stats d')"
proof -
  have h1: "(0::int) < 2" by simp
  have h2: "\<forall>(bi, fs) \<in> set [(1::int, feature_dict 2 10 5 0)]. has_features fs" by simp
  have h3: "has_features (feature_dict 2 10 5 1)" by simp
  have h4: "\<forall>(bi, fs) \<in> set [(3::int, feature_dict 2 10 5 1)]. has_features fs" by simp
  show ?thesis
    using baseline_computed_once [OF h1 h2 h3 h4, of 3 2]
    by (auto simp: column_def feature_dict_def)
qed

text \<open>
  Claim C2, as amended. With \<open>baseline_size = 3\<close> and the three blocks of the scenario
  (\<open>num_txs\<close> 2, 2, 2; \<open>total_amount\<close> 10, 10, 10; \<open>max_amount\<close> 5, 5, 5;
  \<open>time_delta\<close> 0, 1, 1), the baseline after the third call has the means 2, 10, 5
  and 2/3 (0.667 to three decimals), the standard deviation 0 for the three constant
  features and \<open>sqrt (1/3)\<close> for \<open>time_delta\<close>. A fourth block with the same
  \<open>num_txs\<close>, \<open>total_amount\<close> and \<open>max_amount\<close> and a \<open>time_delta\<close> of 0 or 1
  gets the z-score 0 for the three constant features and the z-score
  \<open>(time_delta - 2/3) / sqrt (1/3)\<close>, which is not 0, for \<open>time_delta\<close>; it is not
  an anomaly when \<open>z_threshold\<close> is at least \<open>2 / sqrt 3\<close>, as the default 3.0 is.
\<close>

theorem scenario_three_blocks:
  assumes "2 / sqrt 3 \<le> zt" and "td = 0 \<or> td = 1"
  shows
    "stats (process_blocks (AnomalyDetector 3 zt) scenario_calls) ''num_txs'' =
       Some \<lparr>mean = Some 2, std = Some 0\<rparr> \<and>
     stats (process_blocks (AnomalyDetector 3 zt) scenario_calls) ''total_amount'' =
       Some \<lparr>mean = Some 10, std = Some 0\<rparr> \<and>
     stats (process_blocks (AnomalyDetector 3 zt) scenario_calls) ''max_amount'' =
       Some \<lparr>mean = Some 5, std = Some 0\<rparr> \<and>
     stats (process_blocks (AnomalyDetector 3 zt) scenario_calls) ''time_delta'' =
       Some \<lparr>mean = Some (2 / 3), std = Some (sqrt (1 / 3))\<rparr> \<and>
     \<bar>2 / 3 - 667 / 1000\<bar> < (1 / 1000 :: real) \<and>
     fst (process_block (process_blocks (AnomalyDetector 3 zt) scenario_calls) 4
            (feature_dict 2 10 5 td)) =
       Inr \<lparr>block_index = 4, is_anomaly = False,
            feature_z_scores = [(''num_txs'', 0), (''total_amount'', 0), (''max_amount'', 0),
                                (''time_delta'', (td - 2 / 3) / sqrt (1 / 3))],
            reason = [Lit ''Within normal range'']\<rparr> \<and>
     (td - 2 / 3) / sqrt (1 / 3) \<noteq> 0"
proof -
  have "(td - 2 / 3) / sqrt (1 / 3) \<noteq> 0"
    using assms(2) by auto
  then show ?thesis
    unfolding scenario_state using scenario_decision [OF assms]
    by (simp add: scenario_stats)
qed

theorem scenario_three_blocks_witness:
  "stats (process_blocks (AnomalyDetector 3 3) scenario_calls) ''time_delta'' =
       Some \<lparr>mean = Some (2 / 3), std = Some (sqrt (1 / 3))\<rparr> \<and>
   fst (process_block (process_blocks (AnomalyDetector 3 3) scenario_calls) 4
            (feature_dict 2 10 5 1)) =
       Inr \<lparr>block_index = 4, is_anomaly = False,
            feature_z_scores = [(''num_txs'', 0), (''total_amount'', 0), (''max_amount'', 0),
                                (''time_delta'', (1 - 2 / 3) / sqrt (1 / 3))],
            reason = [Lit ''Within normal range'']\<rparr>"
proof -
  have h: "(1::real) = 0 \<or> (1::real) = 1" by simp
  show ?thesis
    using scenario_three_blocks [OF two_over_sqrt3 h] by blast
qed

text \<open>
  Claim C2 as stated fails: at the default threshold 3, the fourth block of the scenario
  has a \<open>time_delta\<close> z-score of \<open>1 / sqrt 3\<close> when its \<open>time_delta\<close> is 1 and of
  \<open>- 2 / sqrt 3\<close> when it is 0, neither of which is 0.
\<close>

theorem scenario_z_scores_counterexample:
  "fst (process_block (process_blocks (AnomalyDetector 3 3) scenario_calls) 4
          (feature_dict 2 10 5 1)) =
     Inr \<lparr>block_index = 4, is_anomaly = False,
          feature_z_scores = [(''num_txs'', 0), (''total_amount'', 0), (''max_amount'', 0),
                              (''time_delta'', 1 / sqrt 3)],
          reason = [Lit ''Within normal range'']\<rparr> \<and>
   fst (process_block (process_blocks (AnomalyDetector 3 3) scenario_calls) 4
          (feature_dict 2 10 5 0)) =
     Inr \<lparr>block_index = 4, is_anomaly = False,
          feature_z_scores = [(''num_txs'', 0), (''total_amount'', 0), (''max_amount'', 0),
                              (''time_delta'', - 2 / sqrt 3)],
          reason = [Lit ''Within normal range'']\<rparr> \<and>
   1 / sqrt 3 \<noteq> (0::real) \<and> - 2 / sqrt 3 \<noteq> (0::real)"
proof -
  have s3: "sqrt (1 / 3) = 1 / sqrt 3" by (simp add: real_sqrt_divide)
  have pos: "0 < sqrt (3::real)" by simp
  have a: "(1 - 2 / 3) / sqrt (1 / 3) = 1 / sqrt (3::real)"
  proof -
    have "(1 - 2 / 3) / sqrt (1 / 3) = sqrt 3 / (3::real)" by (simp add: s3)
    also have "\<dots> = 1 / sqrt 3"
      using pos by (simp add: field_simps)
    finally show ?thesis .
  qed
  have b: "(0 - 2 / 3) / sqrt (1 / 3) = - 2 / sqrt (3::real)"
  proof -
    have "(0 - 2 / 3) / sqrt (1 / 3) = - (2 * sqrt 3 / (3::real))" by (simp add: s3)
    also have "\<dots> = - 2 / sqrt 3"
      using pos by (simp add: field_simps)
    finally show ?thesis .
  qed
  have h1: "(1::real) = 0 \<or> (1::real) = 1" and h0: "(0::real) = 0 \<or> (0::real) = 1"
    by simp_all
  show ?thesis
    unfolding scenario_state
    using scenario_decision [OF two_over_sqrt3 h1] scenario_decision [OF two_over_sqrt3 h0]
    unfolding a b using pos by simp
qed

text \<open>
  Claim C3. Once the baseline of a detector has been computed, a call of
  \<open>process_block\<close> with a well-formed feature dictionary returns a decision that holds
  the z-score of each of the four features against the stored mean and standard
  deviation, in the order of the feature names, and \<open>is_anomaly\<close> holds exactly when
  the absolute value of at least one of these z-scores is strictly greater than
  \<open>z_threshold\<close>, whatever the threshold is.
\<close>

theorem anomaly_iff_feature_exceeds:
  assumes calls: "\<forall>(bi, fs) \<in> set calls. has_features fs" and fs: "has_features fs"
    and rdy: "baseline_ready (process_blocks (AnomalyDetector bs zt) calls)"
  shows "\<exists>dec z. fst (process_block (process_blocks (AnomalyDetector bs zt) calls) bi fs) = Inr dec \<and>
      feature_z_scores dec = map (\<lambda>k. (k, z k)) feature_names \<and>
      (\<forall>k \<in> set feature_names. \<exists>v m s. fs k = Some v \<and>
          stats (process_blocks (AnomalyDetector bs zt) calls) k =
            Some \<lparr>mean = Some m, std = Some s\<rparr> \<and>
          z k = z_value v m s) \<and>
      (is_anomaly dec \<longleftrightarrow> (\<exists>k \<in> set feature_names. \<bar>z k\<bar> > zt))"
proof -
  let ?d = "process_blocks (AnomalyDetector bs zt) calls"
  let ?K = "baseline_at bs"
  have d: "?d = detector_after bs zt calls"
    by (rule process_blocks_eq [OF calls])
  from fs obtain n t m td where
    f: "fs ''num_txs'' = Some n" "fs ''total_amount'' = Some t"
       "fs ''max_amount'' = Some m" "fs ''time_delta'' = Some td"
    by (auto simp: has_features_iff)
  from rdy have K: "?K \<le> length calls"
    by (simp add: d detector_after_def)
  then have nl: "\<not> int (length (num_txs_history ?d)) + 1 < baseline_size ?d"
    by (auto simp: d detector_after_def column_def baseline_at_def split: if_splits)
  have st: "\<And>k. k \<in> set feature_names \<Longrightarrow>
      stats ?d k = Some \<lparr>mean = Some (sample_mean (column k (take ?K calls))),
                         std = Some (sample_std (column k (take ?K calls)))\<rparr>"
    using K by (simp add: d detector_after_def frozen_stats_def frozen_stat_def)
  define z where "z = (\<lambda>k. z_value (the (fs k)) (sample_mean (column k (take ?K calls)))
                          (sample_std (column k (take ?K calls))))"
  have zt: "z_threshold ?d = zt" by (simp add: d detector_after_def)
  obtain dec where dec: "process_block ?d bi fs = (Inr dec, update_history ?d n t m td)"
    "feature_z_scores dec = map (\<lambda>k. (k, z k)) feature_names"
    "is_anomaly dec \<longleftrightarrow> (\<exists>k \<in> set feature_names. \<bar>z k\<bar> > zt)"
    using process_block_scoring [OF f nl rdy st st st st, of bi] f
    unfolding zt by (auto simp: feature_names_def z_def)
  have "\<forall>k \<in> set feature_names. \<exists>v m s. fs k = Some v \<and>
          stats ?d k = Some \<lparr>mean = Some m, std = Some s\<rparr> \<and> z k = z_value v m s"
    using st f by (auto simp: z_def feature_names_def)
  with dec show ?thesis by auto
qed

theorem anomaly_iff_feature_exceeds_witness:
  "\<exists>dec. fst (process_block (process_blocks (AnomalyDetector 3 3) scenario_calls) 4
                 (feature_dict 2 10 5 100)) = Inr dec \<and> is_anomaly dec"
proof -
  let ?d = "process_blocks (AnomalyDetector 3 3) scenario_calls"
  let ?fs = "feature_dict 2 10 5 100"
  have h1: "\<forall>(bi, fs) \<in> set scenario_calls. has_features fs"
    by (simp add: scenario_calls_def)
  have h2: "has_features ?fs" by simp
  have l: "length scenario_calls = 3" by (simp add: scenario_calls_def)
  have h3: "baseline_ready ?d"
    unfolding scenario_state by (simp add: detector_after_def baseline_at_def l)
  obtain dec z where dz:
    "fst (process_block ?d 4 ?fs) = Inr dec"
    "\<forall>k \<in> set feature_names. \<exists>v m s. ?fs k = Some v \<and>
        stats ?d k = Some \<lparr>mean = Some m, std = Some s\<rparr> \<and> z k = z_value v m s"
    "is_anomaly dec \<longleftrightarrow> (\<exists>k \<in> set feature_names. \<bar>z k\<bar> > 3)"
    using anomaly_iff_feature_exceeds [OF h1 h2 h3, of 4] by blast
  have "''time_delta'' \<in> set feature_names" by (simp add: feature_names_def)
  with dz(2) obtain v m s where vms: "?fs ''time_delta'' = Some v"
    "stats ?d ''time_delta'' = Some \<lparr>mean = Some m, std = Some s\<rparr>"
    "z ''time_delta'' = z_value v m s"
    by blast
  have v: "v = 100" using vms(1) by (simp add: feature_dict_def)
  have m: "m = 2 / 3" and s: "s = sqrt (1 / 3)"
    using vms(2) unfolding scenario_state scenario_stats by simp_all
  have "z ''time_delta'' = z_value 100 (2 / 3) (sqrt (1 / 3))"
    using vms(3) unfolding v m s .
  then have zv: "z ''time_delta'' = (100 - 2 / 3) / sqrt (1 / 3)"
    by (simp add: z_value_def)
  have "sqrt (1 / 3) \<le> (1::real)" by simp
  moreover have "0 < sqrt (1 / 3 :: real)" by simp
  ultimately have "(100 - 2 / 3) \<le> (100 - 2 / 3) / sqrt (1 / 3 :: real)"
    by (simp add: field_simps del: real_sqrt_le_1_iff)
  then have "\<bar>z ''time_delta''\<bar> > 3"
    unfolding zv by linarith
  then have "is_anomaly dec"
    using dz(3) by (auto simp: feature_names_def)
  with dz(1) show ?thesis by blast
qed

text \<open>
  Claim C4. On a feature dictionary that has the three keys it reads, \<open>check_rules\<close>
  returns a decision whose \<open>rule_alert\<close> holds exactly when the list of violations is
  not empty; a Rule1 violation is in the list exactly when \<open>max_amount\<close> exceeds
  \<open>max_single_tx_amount\<close>, a Rule2 violation exactly when \<open>total_amount\<close> exceeds
  \<open>max_block_total_amount\<close>, a Rule3 violation exactly when \<open>time_delta\<close> is not 0
  and is below \<open>min_time_delta\<close>, each whatever the other two rules find; a
  \<open>time_delta\<close> of 0 gives no Rule3 violation.
\<close>

theorem check_rules_violations:
  assumes "fs ''max_amount'' = Some ma" and "fs ''total_amount'' = Some ta"
    and "fs ''time_delta'' = Some td"
  shows "\<exists>rd. check_rules c fs = Inr rd \<and>
           (rule_alert rd \<longleftrightarrow> violations rd \<noteq> []) \<and>
           (''Rule1'' \<in> set (rules_of rd) \<longleftrightarrow> ma > max_single_tx_amount c) \<and>
           (''Rule2'' \<in> set (rules_of rd) \<longleftrightarrow> ta > max_block_total_amount c) \<and>
           (''Rule3'' \<in> set (rules_of rd) \<longleftrightarrow> td \<noteq> 0 \<and> td < min_time_delta c) \<and>
           (td = 0 \<longrightarrow> ''Rule3'' \<notin> set (rules_of rd))"
  unfolding check_rules_eq [OF assms] by (simp add: rules_of_def rule_of_def)

theorem check_rules_violations_witness:
  "\<exists>rd. check_rules \<lparr>max_single_tx_amount = 2000, max_block_total_amount = 5000,
                      min_time_delta = 2 / 100\<rparr>
           (feature_dict 3 6000 2500 0) = Inr rd \<and>
         rule_alert rd \<and> violations rd \<noteq> [] \<and>
         ''Rule1'' \<in> set (rules_of rd) \<and> ''Rule2'' \<in> set (rules_of rd) \<and>
         ''Rule3'' \<notin> set (rules_of rd)"
  using check_rules_violations [of "feature_dict 3 6000 2500 0" 2500 6000 0
      "\<lparr>max_single_tx_amount = 2000, max_block_total_amount = 5000, min_time_delta = 2 / 100\<rparr>"]
  by (auto simp: feature_dict_def rules_of_def)

text \<open>
  Claim C5. \<open>extract_features\<close> is a function of the current block and the optional
  previous block alone, and its result has exactly the four feature names as keys:
  \<open>num_txs\<close> is the number of transactions, \<open>total_amount\<close> the sum of their
  amounts, \<open>max_amount\<close> the largest amount, both 0 when there is no transaction, and
  \<open>time_delta\<close> the difference of the two timestamps, 0 when there is no previous
  block.
\<close>

theorem extract_features_fields:
  "dom (extract_features cur prev) = set feature_names \<and>
   extract_features cur prev ''num_txs'' = Some (real (length (transactions cur))) \<and>
   extract_features cur prev ''total_amount'' = Some (\<Sum>t\<leftarrow>transactions cur. amount t) \<and>
   extract_features cur prev ''max_amount'' =
     Some (if transactions cur = [] then 0 else Max (amount ` set (transactions cur))) \<and>
   extract_features cur prev ''time_delta'' =
     Some (case prev of None \<Rightarrow> 0 | Some p \<Rightarrow> timestamp cur - timestamp p) \<and>
   (transactions cur = [] \<longrightarrow>
      extract_features cur prev ''total_amount'' = Some 0 \<and>
      extract_features cur prev ''max_amount'' = Some 0)"
proof -
  have mx: "max_default (map amount (transactions cur)) 0 =
      (if transactions cur = [] then 0 else Max (amount ` set (transactions cur)))"
  proof (cases "transactions cur")
    case Nil
    then show ?thesis by simp
  next
    case (Cons a as)
    then show ?thesis
      using max_default_Max [of "amount a" "map amount as" 0] by simp
  qed
  show ?thesis
    unfolding extract_features_def Let_def mx
    by (auto simp: feature_names_def split: option.splits)
qed

theorem extract_features_fields_witness:
  "extract_features
     \<lparr>index = 1, timestamp = 5,
      transactions = [\<lparr>sender = ''Alice'', receiver = ''Eve'', amount = 3\<rparr>,
                      \<lparr>sender = ''Bob'', receiver = ''Frank'', amount = 7\<rparr>],
      previous_hash = ''0'', nonce = 0, hash = ''h1''\<rparr>
     (Some \<lparr>index = 0, timestamp = 2, transactions = [], previous_hash = ''0'',
            nonce = 0, hash = ''h0''\<rparr>) = feature_dict 2 10 7 3 \<and>
   extract_features
     \<lparr>index = 0, timestamp = 2, transactions = [], previous_hash = ''0'',
      nonce = 0, hash = ''h0''\<rparr> None ''total_amount'' = Some 0 \<and>
   extract_features
     \<lparr>index = 0, timestamp = 2, transactions = [], previous_hash = ''0'',
      nonce = 0, hash = ''h0''\<rparr> None ''max_amount'' = Some 0"
  using extract_features_fields
     [of "\<lparr>index = 0, timestamp = 2, transactions = [], previous_hash = ''0'',
           nonce = 0, hash = ''h0''\<rparr>" None]
  by (simp add: extract_features_def feature_dict_def)

text \<open>
  Claim C6, as amended. A call that leaves the history shorter than \<open>baseline_size\<close>
  returns the decision with \<open>is_anomaly = False\<close>, no z-scores and the reason
  "Not enough data for baseline"; afterwards the history is still shorter than
  \<open>baseline_size\<close>, and \<open>baseline_ready\<close> and the statistics are what they were.
\<close>

theorem collecting_decision:
  assumes "has_features fs" and "int (length (num_txs_history d)) + 1 < baseline_size d"
  shows "\<exists>d'. process_block d bi fs =
            (Inr \<lparr>block_index = bi, is_anomaly = False, feature_z_scores = [],
                  reason = [Lit ''Not enough data for baseline'']\<rparr>, d') \<and>
           int (length (num_txs_history d')) < baseline_size d' \<and>
           baseline_ready d' = baseline_ready d \<and> stats d' = stats d"
proof -
  from assms(1) obtain n t m td where
    f: "fs ''num_txs'' = Some n" "fs ''total_amount'' = Some t"
       "fs ''max_amount'' = Some m" "fs ''time_delta'' = Some td"
    by (auto simp: has_features_iff)
  show ?thesis
    unfolding process_block_collecting [OF f assms(2)]
    using assms(2) by (simp add: update_history_def)
qed

theorem collecting_decision_witness:
  "\<exists>d'. process_block (AnomalyDetector 3 3) 1 (feature_dict 2 10 5 0) =
            (Inr \<lparr>block_index = 1, is_anomaly = False, feature_z_scores = [],
                  reason = [Lit ''Not enough data for baseline'']\<rparr>, d') \<and>
        \<not> baseline_ready d' \<and> num_txs_history d' = [2]"
proof -
  have h1: "has_features (feature_dict 2 10 5 0)" by simp
  have h2: "int (length (num_txs_history (AnomalyDetector 3 3))) + 1 < baseline_size (AnomalyDetector 3 3)"
    by (simp add: AnomalyDetector_def)
  show ?thesis
    using collecting_decision [OF h1 h2, of 1]
    by (auto simp: AnomalyDetector_def process_block_def getitem_def feature_dict_def update_history_def)
qed

text \<open>
  Claim C6 as stated fails on the reason text: the first call on a fresh detector with
  \<open>baseline_size = 3\<close> does not return the decision whose reason is
  "insufficient data".
\<close>

theorem collecting_reason_counterexample:
  "fst (process_block (AnomalyDetector 3 3) 1 (feature_dict 2 10 5 0)) \<noteq>
     Inr \<lparr>block_index = 1, is_anomaly = False, feature_z_scores = [],
          reason = [Lit ''insufficient data'']\<rparr>"
  by (simp add: AnomalyDetector_def process_block_def getitem_def feature_dict_def update_history_def)

text \<open>
  Claim C7. The z-score of a value \<open>v\<close> against mean \<open>m\<close> and standard deviation
  \<open>s\<close> is returned, never raised: it is \<open>(v - m) / s\<close> when \<open>s > 0\<close> and 0 when
  \<open>s = 0\<close>, whatever \<open>v\<close> is; and no arguments at all make \<open>_z_score\<close> raise
  ZeroDivisionError.
\<close>

theorem z_score_total_guarded:
  "(0 < s \<longrightarrow> z_score v (Some m) (Some s) = Inr ((v - m) / s)) \<and>
   z_score v (Some m) (Some 0) = Inr 0 \<and>
   z_score v mo so \<noteq> Inl ZeroDivisionError"
  by (auto simp: z_score_def truediv_def split: option.splits)

theorem z_score_total_guarded_witness:
  "z_score 5 (Some 2) (Some 3) = Inr 1 \<and>
   z_score 5 (Some 2) (Some 0) = Inr 0 \<and>
   z_score 5 None (Some 3) \<noteq> Inl ZeroDivisionError"
  using z_score_total_guarded [of 3 5 2 None "Some 3"] by simp

text \<open>
  Claim C8. Each call of \<open>process_block\<close> with a well-formed feature dictionary
  appends one value to each of the four histories, in whatever state the detector is:
  after N calls each history is N longer than before, and has length N on a detector
  that was fresh.
\<close>

theorem history_length_after_calls:
  assumes "\<forall>(bi, fs) \<in> set calls. has_features fs"
  shows "length (num_txs_history (process_blocks d calls)) =
           length (num_txs_history d) + length calls \<and>
         length (total_amount_history (process_blocks d calls)) =
           length (total_amount_history d) + length calls \<and>
         length (max_amount_history (process_blocks d calls)) =
           length (max_amount_history d) + length calls \<and>
         length (time_delta_history (process_blocks d calls)) =
           length (time_delta_history d) + length calls \<and>
         length (num_txs_history (process_blocks (AnomalyDetector bs zt) calls)) = length calls \<and>
         length (total_amount_history (process_blocks (AnomalyDetector bs zt) calls)) = length calls \<and>
         length (max_amount_history (process_blocks (AnomalyDetector bs zt) calls)) = length calls \<and>
         length (time_delta_history (process_blocks (AnomalyDetector bs zt) calls)) = length calls"
  using process_blocks_histories [OF assms, of d]
    process_blocks_histories [OF assms, of "AnomalyDetector bs zt"]
  by (simp add: histories_def column_def AnomalyDetector_def)

theorem history_length_after_calls_witness:
  "length (num_txs_history (process_blocks (AnomalyDetector 1 3)
      [(1, feature_dict 2 10 5 0), (2, feature_dict 9 9 9 9)])) = 2 \<and>
   length (time_delta_history (process_blocks (AnomalyDetector 1 3)
      [(1, feature_dict 2 10 5 0), (2, feature_dict 9 9 9 9)])) = 2"
proof -
  have h: "\<forall>(bi, fs) \<in> set [(1::int, feature_dict 2 10 5 0), (2, feature_dict 9 9 9 9)].
      has_features fs"
    by simp
  show ?thesis
    using history_length_after_calls [OF h, of "AnomalyDetector 1 3" 1 3]
    by (simp add: AnomalyDetector_def del: process_blocks.simps)
qed

text \<open>
  Claim C9. A negative \<open>time_delta\<close> with a \<open>min_time_delta\<close> that is not negative
  always gives a Rule3 violation.
\<close>

theorem negative_time_delta_violates_rule3:
  assumes "fs ''max_amount'' = Some ma" and "fs ''total_amount'' = Some ta"
    and "fs ''time_delta'' = Some td"
    and "td < 0" and "0 \<le> min_time_delta c"
  shows "\<exists>rd. check_rules c fs = Inr rd \<and> ''Rule3'' \<in> set (rules_of rd) \<and> rule_alert rd"
  unfolding check_rules_eq [OF assms(1-3)] using assms(4,5)
  by (simp add: rules_of_def rule_of_def)

theorem negative_time_delta_violates_rule3_witness:
  "\<exists>rd. check_rules \<lparr>max_single_tx_amount = 2000, max_block_total_amount = 5000,
                      min_time_delta = 0\<rparr>
           (feature_dict 1 10 10 (- 5)) = Inr rd \<and>
         ''Rule3'' \<in> set (rules_of rd) \<and> rule_alert rd"
  using negative_time_delta_violates_rule3 [of "feature_dict 1 10 10 (- 5)" 10 10 "- 5"
      "\<lparr>max_single_tx_amount = 2000, max_block_total_amount = 5000, min_time_delta = 0\<rparr>"]
  by (simp add: feature_dict_def)

text \<open>
  Claim C10. The violations that \<open>check_rules\<close> returns are at most three, no rule
  occurs twice among them, and their rules are in the order Rule1, Rule2, Rule3.
\<close>

theorem violations_ordered_once:
  assumes "fs ''max_amount'' = Some ma" and "fs ''total_amount'' = Some ta"
    and "fs ''time_delta'' = Some td"
  shows "\<exists>rd. check_rules c fs = Inr rd \<and>
           length (violations rd) \<le> 3 \<and>
           distinct (rules_of rd) \<and>
           rules_of rd = filter (\<lambda>r. r \<in> set (rules_of rd)) [''Rule1'', ''Rule2'', ''Rule3'']"
  unfolding check_rules_eq [OF assms] by (simp add: rules_of_def rule_of_def)

theorem violations_ordered_once_witness:
  "\<exists>rd. check_rules \<lparr>max_single_tx_amount = 2000, max_block_total_amount = 5000,
                      min_time_delta = 2 / 100\<rparr>
           (feature_dict 3 6000 2500 (1 / 100)) = Inr rd \<and>
         length (violations rd) \<le> 3 \<and>
         rules_of rd = [''Rule1'', ''Rule2'', ''Rule3'']"
  using violations_ordered_once [of "feature_dict 3 6000 2500 (1 / 100)" 2500 6000 "1 / 100"
      "\<lparr>max_single_tx_amount = 2000, max_block_total_amount = 5000, min_time_delta = 2 / 100\<rparr>"]
  by (simp add: feature_dict_def check_rules_def getitem_def rules_of_def rule_of_def)

end
